theory Spec2Isabelle
  imports Complex_Main "HOL-Library.Char_ord" "HOL-Library.List_Lexorder" "HOL-Library.Monad_Syntax"
begin

section \<open>Python values and the movie dictionary\<close>

text \<open>
  The scraper passes movies around as Python dicts with the keys \<open>rank\<close>, \<open>title\<close>,
  \<open>year\<close>, \<open>rating\<close> and \<open>url\<close>. The values the normalisation pass inspects
  (\<open>rank\<close> and \<open>title\<close>) are modelled as \<open>pyval\<close>: \<open>None\<close>, an \<open>int\<close> or a \<open>str\<close>.
  For these two keys the outer \<open>option\<close> of the record field says whether the key is
  present at all, because the normaliser reads them with \<open>dict.get\<close>. The other three keys
  are always written by every extractor; their \<open>option\<close> is Python's \<open>None\<close>.
  Python floats are not interpreted: \<open>'f\<close> stands for the float type, and \<open>float()\<close>
  is a parameter (see \<open>pylib\<close>). JSON values of other shapes (lists, objects, booleans,
  floats) as a rank or a title are outside this model.
\<close>

datatype pyval = PyNone | is_PyInt: PyInt (int_of: int) | is_PyStr: PyStr (str_of: string)

datatype error = TypeError

record 'f movie =
  rank :: "pyval option"
  title :: "pyval option"
  year :: "int option"
  rating :: "'f option"
  url :: "string option"

definition truthy :: "pyval \<Rightarrow> bool" where
  "truthy v = (case v of PyNone \<Rightarrow> False | PyInt i \<Rightarrow> i \<noteq> 0 | PyStr s \<Rightarrow> s \<noteq> [])"

section \<open>The libraries the scraper calls\<close>

text \<open>
  Regular expressions, \<open>int()\<close>, \<open>float()\<close>, \<open>str\<close> methods, \<open>urljoin\<close>
  and \<open>json.loads\<close> are library code. They are parameters of the model, collected in
  the record \<open>pylib\<close>. A call that can raise returns an \<open>option\<close>, \<open>None\<close> standing
  for the exception. The regular expressions of the source are named by the datatype
  \<open>regex\<close>:

  \<^item> \<open>TitleText\<close>: \<^verbatim>\<open>"titleText"\s*:\s*"([^"]+)"\<close>
  \<^item> \<open>PrimaryText\<close>: \<^verbatim>\<open>"primaryText"\s*:\s*"([^"]+)"\<close>
  \<^item> \<open>TitleKey\<close>: \<^verbatim>\<open>"title"\s*:\s*"([^"]+)"\<close>
  \<^item> \<open>ReleaseYear\<close>: \<^verbatim>\<open>"releaseYear"\s*:\s*(\d{4})\<close>
  \<^item> \<open>RatingValue\<close>: \<^verbatim>\<open>"ratingValue"\s*:\s*(\d+\.?\d*)\<close>
  \<^item> \<open>Digits\<close>: \<^verbatim>\<open>(\d+)\<close>
  \<^item> \<open>FourDigits\<close>: \<^verbatim>\<open>(\d{4})\<close>
  \<^item> \<open>ParenYear\<close>: \<^verbatim>\<open>\((\d{4})\)\<close> (and \<^verbatim>\<open>\(\d{4}\)\<close> where only the match is tested)
  \<^item> \<open>RankPrefix\<close>: \<^verbatim>\<open>^\d+\.\s*(.*)\<close> with \<open>re.match\<close>, \<^verbatim>\<open>^\d+\.\s*\<close> with \<open>re.sub\<close>
  \<^item> \<open>LeadingRank\<close>: \<^verbatim>\<open>^(\d+)\.\<close>
  \<^item> \<open>RuntimeMin\<close>: \<^verbatim>\<open>(\d+)\s*min\<close>
  \<^item> \<open>TitleHref\<close>: \<^verbatim>\<open>/title/tt\d+/\<close>

  \<open>re_search\<close> and \<open>re_match\<close> give \<open>group(1)\<close> of the match (the whole match for a
  pattern without a group), \<open>re_findall\<close> the list of \<open>group(1)\<close> of all matches, and
  \<open>re_sub\<close> the text with every match removed.
\<close>

datatype regex =
    TitleText | PrimaryText | TitleKey | ReleaseYear | RatingValue
  | Digits | FourDigits | ParenYear | RankPrefix | LeadingRank | RuntimeMin | TitleHref

text \<open>
  \<open>json.loads\<close> is seen through the shape the structured-data hypothesis inspects: the
  text is not JSON (\<open>JSONDecodeError\<close>), or it is JSON but not an object with the key
  \<open>itemListElement\<close>, or it is such an object and the list under that key is given. An
  entry of the list has an optional \<open>position\<close> and an optional \<open>item\<close> object; the item
  has an optional \<open>name\<close>, an optional \<open>aggregateRating.ratingValue\<close>, an optional
  \<open>url\<close> and an optional \<open>datePublished\<close> string.
\<close>

record 'f ld_info =
  ld_name :: "pyval option"
  ld_rating_value :: "'f option"
  ld_url :: "string option"
  ld_date_published :: "string option"

record 'f ld_entry =
  ld_position :: "pyval option"
  ld_item :: "'f ld_info option"

datatype 'f ld_doc = NotJson | NoItemList | ItemList "'f ld_entry list"

record 'f pylib =
  re_search :: "regex \<Rightarrow> string \<Rightarrow> string option"
  re_match :: "regex \<Rightarrow> string \<Rightarrow> string option"
  re_findall :: "regex \<Rightarrow> string \<Rightarrow> string list"
  re_sub :: "regex \<Rightarrow> string \<Rightarrow> string"
  py_int :: "string \<Rightarrow> int option"
  py_float :: "string \<Rightarrow> 'f option"
  str_strip :: "string \<Rightarrow> string"
  str_lower :: "string \<Rightarrow> string"
  urljoin :: "string \<Rightarrow> string \<Rightarrow> string option"
  json_loads :: "string \<Rightarrow> 'f ld_doc"

text \<open>
  A parsed document and each of its elements is a BeautifulSoup \<open>Tag\<close>, modelled by what
  the scraper can ask of it: \<open>find_all\<close> (by name, by name and class, by name and another
  attribute, by name and a pattern for \<open>href\<close>), the CSS query \<open>select\<close>,
  \<open>get_text(strip=b)\<close>, attribute lookup, and \<open>.string\<close>. \<open>find\<close> (here \<open>find_first\<close>) and
  \<open>select_one\<close> give the first result of \<open>find_all\<close> and \<open>select\<close>. A \<open>Tag\<close>
  is always truthy in Python, so \<open>if tag:\<close> tests for \<open>None\<close> only.
\<close>

datatype query =
    ByName string
  | ByClass string string
  | ByAttr string string string
  | ByHref string regex

datatype tag = Tag
  (find_all: "query \<Rightarrow> tag list")
  (select: "string \<Rightarrow> tag list")
  (get_text: "bool \<Rightarrow> string")
  (get_attr: "string \<Rightarrow> string option")
  (tag_string: "string option")

definition find_first :: "tag \<Rightarrow> query \<Rightarrow> tag option" where
  "find_first t q = (case find_all t q of [] \<Rightarrow> None | x # _ \<Rightarrow> Some x)"

definition select_one :: "tag \<Rightarrow> string \<Rightarrow> tag option" where
  "select_one t s = (case select t s of [] \<Rightarrow> None | x # _ \<Rightarrow> Some x)"

definition base_url :: string where
  "base_url = ''https://www.imdb.com''"


section \<open>Field extraction from one structural unit\<close>

text \<open>
  Every extractor body runs inside \<open>try: ... except Exception: return None\<close>. The bodies
  are written in the option monad: \<open>None\<close> is both the explicit \<open>return None\<close> and an
  exception caught by that handler. \<open>float()\<close> has its own handler
  (\<open>except ValueError: pass\<close>), so a failed conversion leaves the rating \<open>None\<close>.
\<close>

text \<open>\<open>int(m.group(1)) if m else None\<close> for \<open>m = re.search(pattern, text)\<close>.\<close>

definition search_int :: "'f pylib \<Rightarrow> regex \<Rightarrow> string \<Rightarrow> int option option" where
  "search_int L pattern text =
     (case re_search L pattern text of
        None \<Rightarrow> Some None
      | Some g \<Rightarrow> (case py_int L g of None \<Rightarrow> None | Some n \<Rightarrow> Some (Some n)))"

text \<open>\<open>urljoin(self.base_url, elem['href'])\<close> when \<open>elem\<close> exists and has a non-empty href.\<close>

definition href_url :: "'f pylib \<Rightarrow> tag option \<Rightarrow> string option option" where
  "href_url L link_elem =
     (case link_elem of
        None \<Rightarrow> Some None
      | Some a \<Rightarrow>
          (case get_attr a ''href'' of
             None \<Rightarrow> Some None
           | Some h \<Rightarrow>
               if h = [] then Some None
               else (case urljoin L base_url h of None \<Rightarrow> None | Some u \<Rightarrow> Some (Some u))))"

definition rank_value :: "int option \<Rightarrow> pyval" where
  "rank_value r = (case r of None \<Rightarrow> PyNone | Some n \<Rightarrow> PyInt n)"

definition extract_from_classic_row :: "'f pylib \<Rightarrow> tag \<Rightarrow> 'f movie option" where
  "extract_from_classic_row L row = do {
     let rank_cell = find_first row (ByClass ''td'' ''ratingColumn'');
     rank0 \<leftarrow> (case rank_cell of
                None \<Rightarrow> Some None
              | Some c \<Rightarrow> search_int L Digits (get_text c True));
     title_cell \<leftarrow> find_first row (ByClass ''td'' ''titleColumn'');
     let title_link = find_first title_cell (ByName ''a'');
     let title0 = (case title_link of None \<Rightarrow> ''Unknown'' | Some a \<Rightarrow> get_text a True);
     year0 \<leftarrow> (case find_first title_cell (ByClass ''span'' ''secondaryInfo'') of
                None \<Rightarrow> Some None
              | Some year_span \<Rightarrow> search_int L FourDigits (get_text year_span True));
     let rating_cell = find_first row (ByClass ''td'' ''ratingColumn'');
     let rating0 = (case rating_cell of
                      None \<Rightarrow> None
                    | Some c \<Rightarrow> (case find_first c (ByName ''strong'') of
                                  None \<Rightarrow> None
                                | Some strong \<Rightarrow> py_float L (get_text strong True)));
     movie_url \<leftarrow> href_url L title_link;
     rank1 \<leftarrow> (if rank0 = None \<or> rank0 = Some 0
              then (case find_first row (ByClass ''td'' ''numberColumn'') of
                      None \<Rightarrow> Some rank0
                    | Some numbering \<Rightarrow>
                        (case re_search L Digits (get_text numbering True) of
                           None \<Rightarrow> Some rank0
                         | Some g \<Rightarrow> map_option Some (py_int L g)))
              else Some rank0);
     Some \<lparr>rank = Some (rank_value rank1), title = Some (PyStr title0), year = year0,
           rating = rating0, url = movie_url\<rparr>
   }"

definition extract_from_container :: "'f pylib \<Rightarrow> tag \<Rightarrow> nat \<Rightarrow> 'f movie option" where
  "extract_from_container L container rank0 = do {
     let title_elem = find_first container (ByClass ''h3'' ''ipc-title__text'');
     let title0 = (case title_elem of
                     None \<Rightarrow> ''Unknown''
                   | Some e \<Rightarrow>
                       (let title_text = get_text e True
                        in case re_match L RankPrefix title_text of
                             Some g \<Rightarrow> g
                           | None \<Rightarrow> title_text));
     year0 \<leftarrow> (case find_first container (ByClass ''span'' ''cli-title-metadata-item'') of
                None \<Rightarrow> Some None
              | Some year_elem \<Rightarrow> search_int L FourDigits (get_text year_elem True));
     let rating0 = (case find_first container (ByClass ''span'' ''ipc-rating-star--rating'') of
                      None \<Rightarrow> None
                    | Some rating_elem \<Rightarrow> py_float L (get_text rating_elem True));
     movie_url \<leftarrow> href_url L (find_first container (ByClass ''a'' ''ipc-title-link-wrapper''));
     Some \<lparr>rank = Some (PyInt (int rank0)), title = Some (PyStr title0), year = year0,
           rating = rating0, url = movie_url\<rparr>
   }"

definition is_movie_row :: "'f pylib \<Rightarrow> tag \<Rightarrow> bool" where
  "is_movie_row L row =
     (let has_title_link = find_first row (ByHref ''a'' TitleHref);
          has_rating = (case find_first row (ByName ''strong'') of
                          Some s \<Rightarrow> Some s
                        | None \<Rightarrow> find_first row (ByClass ''span'' ''ipc-rating-star--rating''));
          has_year = (re_search L ParenYear (get_text row False) \<noteq> None)
      in has_title_link \<noteq> None \<and> (has_rating \<noteq> None \<or> has_year))"

definition extract_from_any_row :: "'f pylib \<Rightarrow> tag \<Rightarrow> nat \<Rightarrow> 'f movie option" where
  "extract_from_any_row L row rank0 = do {
     title_link \<leftarrow> find_first row (ByHref ''a'' TitleHref);
     let title0 = get_text title_link True;
     year0 \<leftarrow> search_int L ParenYear (get_text row False);
     let rating_elem = (case find_first row (ByName ''strong'') of
                          Some s \<Rightarrow> Some s
                        | None \<Rightarrow> find_first row (ByClass ''span'' ''ipc-rating-star--rating''));
     let rating0 = (case rating_elem of
                      None \<Rightarrow> None
                    | Some e \<Rightarrow> py_float L (get_text e True));
     movie_url \<leftarrow> href_url L (Some title_link);
     Some \<lparr>rank = Some (PyInt (int rank0)), title = Some (PyStr title0), year = year0,
           rating = rating0, url = movie_url\<rparr>
   }"

section \<open>Classic page: table, card list, any row\<close>

text \<open>The three \<open>for\<close> loops of \<open>extract_from_classic_page\<close>, each appending to \<open>movies\<close>.\<close>

fun classic_rows :: "'f pylib \<Rightarrow> tag list \<Rightarrow> 'f movie list \<Rightarrow> 'f movie list" where
  "classic_rows L [] movies = movies"
| "classic_rows L (row # rows) movies =
     (case extract_from_classic_row L row of
        None \<Rightarrow> classic_rows L rows movies
      | Some movie_data \<Rightarrow> classic_rows L rows (movies @ [movie_data]))"

fun card_containers :: "'f pylib \<Rightarrow> (nat \<times> tag) list \<Rightarrow> 'f movie list \<Rightarrow> 'f movie list" where
  "card_containers L [] movies = movies"
| "card_containers L ((i, container) # rest) movies =
     (case extract_from_container L container i of
        None \<Rightarrow> card_containers L rest movies
      | Some movie_data \<Rightarrow> card_containers L rest (movies @ [movie_data]))"

fun any_rows :: "'f pylib \<Rightarrow> tag list \<Rightarrow> 'f movie list \<Rightarrow> 'f movie list" where
  "any_rows L [] movies = movies"
| "any_rows L (row # rows) movies =
     (if is_movie_row L row
      then (case extract_from_any_row L row (length movies + 1) of
              None \<Rightarrow> any_rows L rows movies
            | Some movie_data \<Rightarrow> any_rows L rows (movies @ [movie_data]))
      else any_rows L rows movies)"

definition extract_from_classic_page :: "'f pylib \<Rightarrow> tag \<Rightarrow> 'f movie list" where
  "extract_from_classic_page L soup =
     (let movies = [];
          movies = (case find_first soup (ByClass ''tbody'' ''lister-list'') of
                      None \<Rightarrow> movies
                    | Some tbody \<Rightarrow> classic_rows L (find_all tbody (ByName ''tr'')) movies);
          movies = (if movies = []
                    then card_containers L
                           (enumerate 1 (find_all soup (ByClass ''li'' ''ipc-metadata-list-summary-item'')))
                           movies
                    else movies);
          movies = (if movies = []
                    then any_rows L (find_all soup (ByName ''tr'')) movies
                    else movies)
      in movies)"

section \<open>Embedded-script regex hypothesis\<close>

definition patterns :: "regex list" where
  "patterns = [TitleText, PrimaryText, TitleKey]"

text \<open>
  One round of \<open>for i, title in enumerate(titles[:250])\<close>: \<open>int(years[i])\<close> and
  \<open>float(ratings[i])\<close> are not guarded, so a failing conversion raises.
\<close>

definition embedded_movie ::
  "'f pylib \<Rightarrow> string list \<Rightarrow> string list \<Rightarrow> nat \<Rightarrow> string \<Rightarrow> 'f movie option" where
  "embedded_movie L years ratings i title0 = do {
     year0 \<leftarrow> (if i < length years then map_option Some (py_int L (years ! i)) else Some None);
     rating0 \<leftarrow> (if i < length ratings then map_option Some (py_float L (ratings ! i))
                else Some None);
     Some \<lparr>rank = Some (PyInt (int i + 1)), title = Some (PyStr title0), year = year0,
           rating = rating0, url = None\<rparr>
   }"

fun embedded_titles ::
  "'f pylib \<Rightarrow> string list \<Rightarrow> string list \<Rightarrow> (nat \<times> string) list \<Rightarrow> 'f movie list
   \<Rightarrow> 'f movie list option" where
  "embedded_titles L years ratings [] movies = Some movies"
| "embedded_titles L years ratings ((i, title0) # rest) movies =
     (case embedded_movie L years ratings i title0 of
        None \<Rightarrow> None
      | Some m \<Rightarrow> embedded_titles L years ratings rest (movies @ [m]))"

fun embedded_patterns ::
  "'f pylib \<Rightarrow> string \<Rightarrow> regex list \<Rightarrow> 'f movie list \<Rightarrow> 'f movie list option" where
  "embedded_patterns L script_content [] movies = Some movies"
| "embedded_patterns L script_content (pattern # rest) movies =
     (let titles = re_findall L pattern script_content
      in if length titles > 50
         then (let years = re_findall L ReleaseYear script_content;
                   ratings = re_findall L RatingValue script_content
               in case embedded_titles L years ratings (enumerate 0 (take 250 titles)) movies of
                    None \<Rightarrow> None
                  | Some movies' \<Rightarrow>
                      if movies' \<noteq> [] then Some movies'
                      else embedded_patterns L script_content rest movies')
         else embedded_patterns L script_content rest movies)"

definition extract_from_embedded_json :: "'f pylib \<Rightarrow> string \<Rightarrow> 'f movie list" where
  "extract_from_embedded_json L script_content =
     (case embedded_patterns L script_content patterns [] of
        None \<Rightarrow> []
      | Some movies \<Rightarrow> movies)"

section \<open>Generic selector sweep\<close>

definition title_selectors :: "string list" where
  \<open>title_selectors =
     [''h3.ipc-title__text'', ''a.titleColumn'', ''td.titleColumn a'',
      ''a[href*="/title/tt"]'', ''.cli-title a'']\<close>

definition year_selectors :: "string list" where
  "year_selectors = [''.cli-title-metadata-item'', ''.secondaryInfo'', ''span.secondaryInfo'']"

definition rating_selectors :: "string list" where
  "rating_selectors =
     [''.ipc-rating-star--rating'', ''strong'', ''.ratingColumn strong'', ''.cli-rating'']"

definition selectors :: "string list" where
  "selectors =
     [''li.ipc-metadata-list-summary-item'', ''tr[data-testid]'', ''li.titleColumn'',
      ''.lister-item'', ''.cli-item'']"

fun generic_title :: "'f pylib \<Rightarrow> tag \<Rightarrow> string list \<Rightarrow> string" where
  "generic_title L element [] = ''Unknown''"
| "generic_title L element (selector # rest) =
     (case select_one element selector of
        None \<Rightarrow> generic_title L element rest
      | Some title_elem \<Rightarrow>
          (let title_clean = re_sub L RankPrefix (get_text title_elem True)
           in if title_clean \<noteq> [] \<and> length title_clean > 1 then title_clean
              else generic_title L element rest))"

fun generic_year :: "'f pylib \<Rightarrow> tag \<Rightarrow> string list \<Rightarrow> int option option" where
  "generic_year L element [] = Some None"
| "generic_year L element (selector # rest) =
     (case select_one element selector of
        None \<Rightarrow> generic_year L element rest
      | Some year_elem \<Rightarrow>
          (case re_search L FourDigits (get_text year_elem True) of
             None \<Rightarrow> generic_year L element rest
           | Some g \<Rightarrow> map_option Some (py_int L g)))"

fun generic_rating :: "'f pylib \<Rightarrow> tag \<Rightarrow> string list \<Rightarrow> 'f option" where
  "generic_rating L element [] = None"
| "generic_rating L element (selector # rest) =
     (case select_one element selector of
        None \<Rightarrow> generic_rating L element rest
      | Some rating_elem \<Rightarrow>
          (case py_float L (get_text rating_elem True) of
             Some r \<Rightarrow> Some r
           | None \<Rightarrow> generic_rating L element rest))"

definition extract_movie_data_generic :: "'f pylib \<Rightarrow> tag \<Rightarrow> nat \<Rightarrow> 'f movie option" where
  \<open>extract_movie_data_generic L element rank0 = do {
     let title0 = generic_title L element title_selectors;
     year0 \<leftarrow> generic_year L element year_selectors;
     let rating0 = generic_rating L element rating_selectors;
     movie_url \<leftarrow> href_url L (select_one element ''a[href*="/title/tt"]'');
     extracted_rank \<leftarrow>
       (case re_search L LeadingRank (str_strip L (get_text element False)) of
          None \<Rightarrow> Some (int rank0)
        | Some g \<Rightarrow> py_int L g);
     Some \<lparr>rank = Some (PyInt extracted_rank), title = Some (PyStr title0), year = year0,
           rating = rating0, url = movie_url\<rparr>
   }\<close>

fun sweep_elements :: "'f pylib \<Rightarrow> (nat \<times> tag) list \<Rightarrow> 'f movie list \<Rightarrow> 'f movie list" where
  "sweep_elements L [] movies = movies"
| "sweep_elements L ((i, element) # rest) movies =
     (case extract_movie_data_generic L element i of
        None \<Rightarrow> sweep_elements L rest movies
      | Some movie_data \<Rightarrow>
          if title movie_data \<noteq> Some (PyStr ''Unknown'')
          then sweep_elements L rest (movies @ [movie_data])
          else sweep_elements L rest movies)"

fun sweep_selectors :: "'f pylib \<Rightarrow> tag \<Rightarrow> string list \<Rightarrow> 'f movie list \<Rightarrow> 'f movie list" where
  "sweep_selectors L soup [] movies = movies"
| "sweep_selectors L soup (selector # rest) movies =
     (let elements = select soup selector
      in if elements \<noteq> []
         then (let movies' = sweep_elements L (enumerate 1 elements) movies
               in if length movies' > 50 then movies'
                  else sweep_selectors L soup rest movies')
         else sweep_selectors L soup rest movies)"

definition parse_html_for_movies :: "'f pylib \<Rightarrow> tag \<Rightarrow> 'f movie list" where
  "parse_html_for_movies L soup = sweep_selectors L soup selectors []"

section \<open>Structured data (JSON-LD) and the page-level cascade\<close>





section \<open>Strategy orchestrator and normaliser (\<open>scrape_top250\<close>)\<close>

text \<open>
  The three stage methods fetch pages; what each returns when it is called is the
  parameter \<open>stage_result\<close>. \<open>run_stages\<close> is the first half of \<open>scrape_top250\<close>. Besides the
  working list \<open>all_movies\<close> it returns the stages it called, in order, so that a skipped
  stage is visible.
\<close>

datatype stage = Classic | Paginated | Alternative

definition run_stages :: "(stage \<Rightarrow> 'a list) \<Rightarrow> stage list \<times> 'a list" where
  "run_stages stage_result =
     (let all_movies = [];
          classic_movies = stage_result Classic;
          called = [Classic];
          all_movies = (if length classic_movies > length all_movies
                        then classic_movies else all_movies);
          (called, all_movies) =
            (if length all_movies < 200
             then (let paginated_movies = stage_result Paginated
                   in (called @ [Paginated],
                       if length paginated_movies > length all_movies
                       then paginated_movies else all_movies))
             else (called, all_movies));
          (called, all_movies) =
            (if length all_movies < 200
             then (let alt_movies = stage_result Alternative
                   in (called @ [Alternative],
                       if length alt_movies > length all_movies
                       then alt_movies else all_movies))
             else (called, all_movies))
      in (called, all_movies))"

text \<open>
  The cleaning loop: \<open>seen_titles\<close> is a Python set, \<open>valid_movies\<close> a list.
  \<open>movie.get('title')\<close> is falsy for a missing key, \<open>None\<close>, \<open>0\<close> and the empty string.
\<close>

fun clean_step :: "pyval set \<times> 'f movie list \<Rightarrow> 'f movie \<Rightarrow> pyval set \<times> 'f movie list" where
  "clean_step (seen_titles, valid_movies) m =
     (case title m of
        None \<Rightarrow> (seen_titles, valid_movies)
      | Some t \<Rightarrow>
          if truthy t \<and> t \<noteq> PyStr ''Unknown'' \<and> t \<notin> seen_titles
          then (insert t seen_titles, valid_movies @ [m])
          else (seen_titles, valid_movies))"

definition clean :: "'f movie list \<Rightarrow> 'f movie list" where
  "clean all_movies = snd (foldl clean_step ({}, []) all_movies)"

text \<open>The sort key \<open>lambda x: x.get('rank', 999)\<close>: the default applies to a missing key only.\<close>

definition rank_key :: "'f movie \<Rightarrow> pyval" where
  "rank_key x = (case rank x of None \<Rightarrow> PyInt 999 | Some v \<Rightarrow> v)"

text \<open>
  \<open>list.sort(key=...)\<close> is a stable sort that compares keys with \<open><\<close>. A list of at
  most one element is sorted without any comparison. With two or more elements every
  element is compared with another one, and the comparisons link all of them; \<open><\<close> is
  defined between two ints and between two strs, and raises \<open>TypeError\<close> for every other
  pair of \<open>pyval\<close>s (\<open>None\<close> is not even comparable with \<open>None\<close>). So the sort succeeds
  exactly when all keys are ints or all keys are strs.
\<close>

definition py_sort :: "('a \<Rightarrow> pyval) \<Rightarrow> 'a list \<Rightarrow> error + 'a list" where
  "py_sort key xs =
     (if length xs \<le> 1 then Inr xs
      else if list_all (\<lambda>x. is_PyInt (key x)) xs
           then Inr (sort_key (\<lambda>x. int_of (key x)) xs)
      else if list_all (\<lambda>x. is_PyStr (key x)) xs
           then Inr (sort_key (\<lambda>x. str_of (key x)) xs)
      else Inl TypeError)"

text \<open>\<open>for i, movie in enumerate(valid_movies, 1): movie['rank'] = i\<close>\<close>

definition rerank :: "'f movie list \<Rightarrow> 'f movie list" where
  "rerank valid_movies =
     map (\<lambda>(i, m). m\<lparr>rank := Some (PyInt (int i))\<rparr>) (enumerate 1 valid_movies)"

text \<open>The second half of \<open>scrape_top250\<close>; a \<open>TypeError\<close> of the sort is not caught there.\<close>

definition normalizer :: "'f movie list \<Rightarrow> error + 'f movie list" where
  "normalizer all_movies =
     (case py_sort rank_key (clean all_movies) of
        Inl e \<Rightarrow> Inl e
      | Inr valid_movies \<Rightarrow> Inr (take 250 (rerank valid_movies)))"

definition scrape_top250 :: "(stage \<Rightarrow> 'f movie list) \<Rightarrow> error + 'f movie list" where
  "scrape_top250 stage_result = normalizer (snd (run_stages stage_result))"

section \<open>Detail enricher\<close>

record detail =
  director :: string
  runtime_minutes :: "int option"
  genres :: string

text \<open>
  What \<open>get_page_with_retries\<close> and the parser hand to \<open>get_additional_details\<close>: an
  exception, no response, or the parsed page.
\<close>

datatype fetched = FetchRaised | NoResponse | Page tag

definition unknown_detail :: detail where
  "unknown_detail = \<lparr>director = ''Unknown'', runtime_minutes = None, genres = ''Unknown''\<rparr>"

definition director_selectors :: "string list" where
  \<open>director_selectors =
     [''a[class*="ipc-metadata-list-item__list-content-item--link"]'',
      ''.credit_summary_item a'',
      ''[data-testid="title-pc-principal-credit"] a'']\<close>

definition genre_selectors :: "string list" where
  \<open>genre_selectors =
     [''[data-testid="genres"] a'',
      ''.see-more.inline a[href*="genre"]'',
      ''.subtext a[href*="genre"]'']\<close>

fun first_director :: "tag \<Rightarrow> string list \<Rightarrow> string" where
  "first_director soup [] = ''Unknown''"
| "first_director soup (selector # rest) =
     (case select_one soup selector of
        Some director_elem \<Rightarrow> get_text director_elem True
      | None \<Rightarrow> first_director soup rest)"

fun first_genres :: "tag \<Rightarrow> string list \<Rightarrow> string list" where
  "first_genres soup [] = []"
| "first_genres soup (selector # rest) =
     (let genre_elems = select soup selector
      in if genre_elems \<noteq> [] then map (\<lambda>elem. get_text elem True) (take 3 genre_elems)
         else first_genres soup rest)"

text \<open>\<open>', '.join(genres)\<close>\<close>

fun join_comma :: "string list \<Rightarrow> string" where
  "join_comma [] = []"
| "join_comma [g] = g"
| "join_comma (g # gs) = g @ '', '' @ join_comma gs"

definition details_body :: "'f pylib \<Rightarrow> tag \<Rightarrow> detail option" where
  "details_body L soup = do {
     let director0 = first_director soup director_selectors;
     runtime \<leftarrow> search_int L RuntimeMin (get_text soup False);
     let genres0 = first_genres soup genre_selectors;
     Some \<lparr>director = director0, runtime_minutes = runtime,
           genres = (if genres0 \<noteq> [] then join_comma genres0 else ''Unknown'')\<rparr>
   }"

definition get_additional_details :: "'f pylib \<Rightarrow> fetched \<Rightarrow> detail" where
  "get_additional_details L response =
     (case response of
        FetchRaised \<Rightarrow> unknown_detail
      | NoResponse \<Rightarrow> unknown_detail
      | Page soup \<Rightarrow>
          (case details_body L soup of
             None \<Rightarrow> unknown_detail
           | Some d \<Rightarrow> d))"

section \<open>Predicates used to state the properties\<close>

text \<open>A title that the cleaning loop accepts: present, truthy, and not the sentinel.\<close>

definition good_title :: "'f movie \<Rightarrow> bool" where
  "good_title m = (\<exists>t. title m = Some t \<and> truthy t \<and> t \<noteq> PyStr ''Unknown'')"

text \<open>The rank entries \<open>1, 2, ..., n\<close>.\<close>

definition seq_ranks :: "nat \<Rightarrow> pyval option list" where
  "seq_ranks n = map (\<lambda>i. Some (PyInt (int i))) [1..<Suc n]"

text \<open>
  \<open>r\<close> is the longest list among \<open>cands\<close>, and on equal lengths the earliest of them:
  it sits at some index \<open>i\<close>, everything before \<open>i\<close> is strictly shorter, nothing is
  longer.
\<close>

definition first_longest :: "'a list list \<Rightarrow> 'a list \<Rightarrow> bool" where
  "first_longest cands r =
     (\<exists>i<length cands. r = cands ! i
        \<and> (\<forall>j<i. length (cands ! j) < length r)
        \<and> (\<forall>j<length cands. length (cands ! j) \<le> length r))"

text \<open>
  The dict that the embedded-script hypothesis builds for the \<open>i\<close>-th title when no
  conversion raises.
\<close>

definition embedded_item ::
  "'f pylib \<Rightarrow> string list \<Rightarrow> string list \<Rightarrow> nat \<times> string \<Rightarrow> 'f movie" where
  "embedded_item L years ratings = (\<lambda>(i, title0).
     \<lparr>rank = Some (PyInt (int i + 1)), title = Some (PyStr title0),
      year = (if i < length years then py_int L (years ! i) else None),
      rating = (if i < length ratings then py_float L (ratings ! i) else None),
      url = None\<rparr>)"


section \<open>Concrete inputs used by the closed theorems below\<close>

text \<open>A movie dict with the given rank entry and title, the other fields \<open>None\<close>.\<close>

definition mk_movie :: "pyval option \<Rightarrow> string \<Rightarrow> rat movie" where
  "mk_movie r t = \<lparr>rank = r, title = Some (PyStr t), year = None, rating = None, url = None\<rparr>"

text \<open>
  Stage results of lengths 120, 80 and 0; of lengths 80, 120 and 120 (a later stage is
  longer, and the last two tie); and of lengths 250, 10 and 300 (the first stage reaches
  the threshold of 200).
\<close>

definition stages_120_80 :: "stage \<Rightarrow> nat list" where
  "stages_120_80 s =
     (case s of Classic \<Rightarrow> replicate 120 1 | Paginated \<Rightarrow> replicate 80 2 | Alternative \<Rightarrow> [])"

definition stages_80_120 :: "stage \<Rightarrow> nat list" where
  "stages_80_120 s =
     (case s of
        Classic \<Rightarrow> replicate 80 1
      | Paginated \<Rightarrow> replicate 120 2
      | Alternative \<Rightarrow> replicate 120 3)"

definition stages_250 :: "stage \<Rightarrow> nat list" where
  "stages_250 s =
     (case s of
        Classic \<Rightarrow> replicate 250 1
      | Paginated \<Rightarrow> replicate 10 2
      | Alternative \<Rightarrow> replicate 300 3)"

text \<open>
  A script text with 60 \<open>titleText\<close> entries, 55 \<open>releaseYear\<close> entries and 58
  \<open>ratingValue\<close> entries.
\<close>

definition embedded_script :: string where
  \<open>embedded_script =
     concat (replicate 60 ''"titleText":"Heat",'')
     @ concat (replicate 55 ''"releaseYear":1995,'')
     @ concat (replicate 58 ''"ratingValue":8.3,'')\<close>

text \<open>
  Three JSON-LD texts: a list-item array of 100 entries \<open>{}\<close>, none with an \<open>item\<close>;
  an array with the single entry \<open>{"item": {"name": "Later"}}\<close>; and an array of 100
  entries \<open>{"item": {"name": "Heat"}}\<close>. Below them, what \<open>json.loads\<close> makes of
  their entries.
\<close>

definition block_no_items :: string where
  \<open>block_no_items = ''{"itemListElement":['' @ concat (replicate 99 ''{},'') @ ''{}]}''\<close>

definition block_later :: string where
  \<open>block_later = ''{"itemListElement":[{"item":{"name":"Later"}}]}''\<close>

definition block_items :: string where
  \<open>block_items =
     ''{"itemListElement":['' @ concat (replicate 99 ''{"item":{"name":"Heat"}},'')
     @ ''{"item":{"name":"Heat"}}]}''\<close>

definition no_item_entry :: "rat ld_entry" where
  "no_item_entry = \<lparr>ld_position = None, ld_item = None\<rparr>"

definition named_entry :: "string \<Rightarrow> rat ld_entry" where
  "named_entry n =
     \<lparr>ld_position = None,
      ld_item = Some \<lparr>ld_name = Some (PyStr n), ld_rating_value = None, ld_url = None,
                      ld_date_published = None\<rparr>\<rparr>"

text \<open>
  The library on the texts of the examples: \<open>demo_lib\<close> answers each call that the
  examples make as Python does, with the float \<open>8.3\<close> written as the rational \<open>83/10\<close>.
\<close>

definition ascii_lower :: "char \<Rightarrow> char" where
  "ascii_lower c =
     (case map_of (zip ''ABCDEFGHIJKLMNOPQRSTUVWXYZ'' ''abcdefghijklmnopqrstuvwxyz'') c of
        None \<Rightarrow> c
      | Some l \<Rightarrow> l)"

definition demo_lib :: "rat pylib" where
  "demo_lib =
     \<lparr>re_search = (\<lambda>p s.
        if s = ''7. Heat'' \<and> (p = Digits \<or> p = LeadingRank) then Some ''7''
        else if s = ''Heat 170 min Crime'' \<and> (p = Digits \<or> p = RuntimeMin) then Some ''170''
        else None),
      re_match = (\<lambda>p s. if p = RankPrefix \<and> s = ''7. Heat'' then Some ''Heat'' else None),
      re_findall = (\<lambda>p s.
        if s = embedded_script
        then (case p of
                TitleText \<Rightarrow> replicate 60 ''Heat''
              | ReleaseYear \<Rightarrow> replicate 55 ''1995''
              | RatingValue \<Rightarrow> replicate 58 ''8.3''
              | _ \<Rightarrow> [])
        else []),
      re_sub = (\<lambda>p s. if p = RankPrefix \<and> s = ''7. Heat'' then ''Heat'' else s),
      py_int = (\<lambda>s. if s = ''7'' then Some 7
                     else if s = ''170'' then Some 170
                     else if s = ''1995'' then Some 1995
                     else None),
      py_float = (\<lambda>s. if s = ''8.3'' then Some (83 / 10) else None),
      str_strip = (\<lambda>s. s),
      str_lower = map ascii_lower,
      urljoin = (\<lambda>b u. Some (b @ u)),
      json_loads = (\<lambda>s.
        if s = block_items then ItemList (replicate 100 (named_entry ''Heat''))
        else if s = block_no_items then ItemList (replicate 100 no_item_entry)
        else if s = block_later then ItemList [named_entry ''Later'']
        else NotJson)\<rparr>"

text \<open>An element with the text \<open>t\<close> and nothing inside.\<close>

definition leaf :: "string \<Rightarrow> tag" where
  "leaf t = Tag (\<lambda>q. []) (\<lambda>s. []) (\<lambda>b. t) (\<lambda>a. None) (Some t)"

text \<open>An element whose only child is \<open><h3 class="ipc-title__text">t</h3>\<close>.\<close>

definition card_elem :: "string \<Rightarrow> tag" where
  "card_elem t =
     Tag (\<lambda>q. if q = ByClass ''h3'' ''ipc-title__text'' \<or> q = ByName ''h3'' then [leaf t] else [])
         (\<lambda>s. if s = ''h3.ipc-title__text'' then [leaf t] else [])
         (\<lambda>b. t) (\<lambda>a. None) (Some t)"

text \<open>
  A page on which the selector \<open>li.ipc-metadata-list-summary-item\<close> yields 10 elements
  titled \<open>Early\<close> and the later selector \<open>tr[data-testid]\<close> yields 60 elements titled
  \<open>Later\<close>.
\<close>

definition sweep_page :: tag where
  "sweep_page =
     Tag (\<lambda>q. if q = ByClass ''li'' ''ipc-metadata-list-summary-item''
              then replicate 10 (card_elem ''Early'')
              else if q = ByName ''tr'' then replicate 60 (card_elem ''Later'')
              else [])
         (\<lambda>s. if s = ''li.ipc-metadata-list-summary-item'' then replicate 10 (card_elem ''Early'')
              else if s = ''tr[data-testid]'' then replicate 60 (card_elem ''Later'')
              else [])
         (\<lambda>b. concat (replicate 10 ''Early'') @ concat (replicate 60 ''Later''))
         (\<lambda>a. None) None"

text \<open>
  A page without the classic table whose card_elem list has the two items
  \<open>7. Heat\<close> and \<open>Alien\<close>, in this order.
\<close>

definition prefixed_page :: tag where
  "prefixed_page =
     Tag (\<lambda>q. if q = ByClass ''li'' ''ipc-metadata-list-summary-item''
              then [card_elem ''7. Heat'', card_elem ''Alien'']
              else [])
         (\<lambda>s. if s = ''li.ipc-metadata-list-summary-item''
              then [card_elem ''7. Heat'', card_elem ''Alien'']
              else [])
         (\<lambda>b. ''7. HeatAlien'') (\<lambda>a. None) None"

text \<open>
  A detail page with the text \<open>Heat 170 min Crime\<close>, one genre link and no element that
  a director selector matches.
\<close>

definition detail_page :: tag where
  \<open>detail_page =
     Tag (\<lambda>q. [])
         (\<lambda>s. if s = ''[data-testid="genres"] a'' then [leaf ''Crime''] else [])
         (\<lambda>b. ''Heat 170 min Crime'') (\<lambda>a. None) None\<close>



section \<open>Normaliser: invariants of the final list\<close>

lemma clean_loop_inv:
  assumes "foldl clean_step (seen, valid) ms = (seen', valid')"
    and "Some ` seen = title ` set valid" and "distinct (map title valid)"
    and "\<forall>m\<in>set valid. good_title m"
  shows "Some ` seen' = title ` set valid' \<and> distinct (map title valid')
         \<and> (\<forall>m\<in>set valid'. good_title m)"
  using assms
proof (induction ms arbitrary: seen valid)
  case Nil
  then show ?case by simp
next
  case (Cons m ms)
  show ?case
  proof (cases "title m")
    case None
    with Cons.prems have "foldl clean_step (seen, valid) ms = (seen', valid')" by simp
    from Cons.IH[OF this Cons.prems(2-4)] show ?thesis .
  next
    case (Some t)
    show ?thesis
    proof (cases "truthy t \<and> t \<noteq> PyStr ''Unknown'' \<and> t \<notin> seen")
      case False
      with Some Cons.prems have "foldl clean_step (seen, valid) ms = (seen', valid')" by auto
      from Cons.IH[OF this Cons.prems(2-4)] show ?thesis .
    next
      case True
      with Some Cons.prems
      have run: "foldl clean_step (insert t seen, valid @ [m]) ms = (seen', valid')" by simp
      have a: "Some ` insert t seen = title ` set (valid @ [m])"
        using Cons.prems(2) Some by auto
      have "Some t \<notin> title ` set valid"
        using True Cons.prems(2) by auto
      then have b: "distinct (map title (valid @ [m]))"
        using Cons.prems(3) Some by auto
      have c: "\<forall>x\<in>set (valid @ [m]). good_title x"
        using Cons.prems(4) True Some by (auto simp: good_title_def)
      from Cons.IH[OF run a b c] show ?thesis .
    qed
  qed
qed

lemma clean_distinct: "distinct (map title (clean xs))"
  and clean_good: "\<forall>m\<in>set (clean xs). good_title m"
proof -
  obtain s v where sv: "foldl clean_step ({}, []) xs = (s, v)"
    by (cases "foldl clean_step ({}, []) xs")
  from clean_loop_inv[OF sv]
  have "distinct (map title v) \<and> (\<forall>m\<in>set v. good_title m)" by simp
  then show "distinct (map title (clean xs))" and "\<forall>m\<in>set (clean xs). good_title m"
    by (simp_all add: clean_def sv)
qed

lemma py_sort_set: "py_sort key xs = Inr ys \<Longrightarrow> set ys = set xs"
  by (auto simp: py_sort_def split: if_splits)

lemma py_sort_length: "py_sort key xs = Inr ys \<Longrightarrow> length ys = length xs"
  by (auto simp: py_sort_def split: if_splits)

lemma py_sort_distinct_map:
  assumes "py_sort key xs = Inr ys" "distinct (map f xs)"
  shows "distinct (map f ys)"
proof -
  from assms(2) have "distinct xs" "inj_on f (set xs)" by (simp_all add: distinct_map)
  moreover from assms(1) have "distinct ys = distinct xs"
    by (auto simp: py_sort_def split: if_splits)
  ultimately show ?thesis using py_sort_set[OF assms(1)] by (simp add: distinct_map)
qed

lemma rerank_length: "length (rerank xs) = length xs"
  by (simp add: rerank_def)

lemma rerank_nth:
  "i < length xs \<Longrightarrow> rerank xs ! i = (xs ! i)\<lparr>rank := Some (PyInt (int (Suc i)))\<rparr>"
  by (simp add: rerank_def nth_enumerate_eq)

lemma rerank_titles: "map title (rerank xs) = map title xs"
  by (rule nth_equalityI) (simp_all add: rerank_length rerank_nth)

lemma rerank_ranks: "map rank (rerank xs) = seq_ranks (length xs)"
  by (rule nth_equalityI) (simp_all add: rerank_length rerank_nth seq_ranks_def del: upt_Suc)

lemma take_seq_ranks: "take k (seq_ranks n) = seq_ranks (min k n)"
  by (rule nth_equalityI) (auto simp: seq_ranks_def simp del: upt_Suc)

lemma seq_ranks_nth: "i < n \<Longrightarrow> seq_ranks n ! i = Some (PyInt (int (Suc i)))"
  by (simp add: seq_ranks_def del: upt_Suc)

lemma normalizer_props:
  assumes "normalizer xs = Inr ys"
  shows "map rank ys = seq_ranks (length ys)" "distinct (map title ys)"
    "\<forall>m\<in>set ys. good_title m" "length ys \<le> 250"
proof -
  from assms obtain zs where zs: "py_sort rank_key (clean xs) = Inr zs"
    and ys: "ys = take 250 (rerank zs)"
    by (auto simp: normalizer_def split: sum.splits)
  show "length ys \<le> 250" by (simp add: ys)
  have "map rank ys = take 250 (map rank (rerank zs))" by (simp add: ys take_map)
  then show "map rank ys = seq_ranks (length ys)"
    by (simp add: rerank_ranks take_seq_ranks ys rerank_length min.commute)
  have "distinct (map title zs)" by (rule py_sort_distinct_map[OF zs clean_distinct])
  then have "distinct (take 250 (map title (rerank zs)))"
    unfolding rerank_titles by (rule distinct_take)
  then show "distinct (map title ys)" by (simp add: ys take_map)
  have gz: "\<forall>m\<in>set zs. good_title m" using clean_good py_sort_set[OF zs] by blast
  show "\<forall>m\<in>set ys. good_title m"
  proof
    fix m assume "m \<in> set ys"
    then have "m \<in> set (rerank zs)" unfolding ys by (rule in_set_takeD)
    then have "title m \<in> set (map title (rerank zs))" by simp
    then have "title m \<in> title ` set zs" unfolding rerank_titles by simp
    then obtain x where "x \<in> set zs" "title m = title x" by blast
    with gz show "good_title m" by (simp add: good_title_def)
  qed
qed

text \<open>
  When does the normaliser return at all? Exactly when the sort does: the cleaned list has
  at most one item, or all its rank keys are ints, or all are strs.
\<close>

lemma normalizer_returns_iff:
  "(\<exists>ys. normalizer xs = Inr ys) \<longleftrightarrow>
     (length (clean xs) \<le> 1
      \<or> list_all (\<lambda>x. is_PyInt (rank_key x)) (clean xs)
      \<or> list_all (\<lambda>x. is_PyStr (rank_key x)) (clean xs))"
  by (simp add: normalizer_def py_sort_def split: sum.splits)

text \<open>
  Claim C1. Whatever candidate list the normalisation pass of \<open>scrape_top250\<close> is given,
  the list it returns has the ranks \<open>1, 2, ..., N\<close> in this order, pairwise distinct
  titles, no title equal to the sentinel \<open>"Unknown"\<close>, and \<open>N \<le> 250\<close>.
\<close>

theorem normalizer_final_list_invariants:
  "normalizer all_movies = Inr final \<Longrightarrow>
     map rank final = map (\<lambda>i. Some (PyInt (int i))) [1..<Suc (length final)]
     \<and> distinct (map title final)
     \<and> (\<forall>m\<in>set final. title m \<noteq> Some (PyStr ''Unknown''))
     \<and> length final \<le> 250"
proof -
  assume a: "normalizer all_movies = Inr final"
  note p = normalizer_props[OF a]
  from p(3) have "\<forall>m\<in>set final. title m \<noteq> Some (PyStr ''Unknown'')"
    by (auto simp: good_title_def)
  with p(1,2,4) show ?thesis by (simp add: seq_ranks_def)
qed

theorem normalizer_final_list_invariants_witness:
  "normalizer [mk_movie (Some (PyInt 5)) ''Heat'', mk_movie (Some (PyInt 2)) ''Unknown'',
               mk_movie (Some (PyInt 3)) ''Heat'', mk_movie (Some (PyInt 1)) ''Alien'']
     = Inr [mk_movie (Some (PyInt 1)) ''Alien'', mk_movie (Some (PyInt 2)) ''Heat'']
   \<and> map rank [mk_movie (Some (PyInt 1)) ''Alien'', mk_movie (Some (PyInt 2)) ''Heat'']
       = [Some (PyInt 1), Some (PyInt 2)]
   \<and> distinct (map title [mk_movie (Some (PyInt 1)) ''Alien'', mk_movie (Some (PyInt 2)) ''Heat''])
   \<and> Some (PyStr ''Unknown'')
       \<notin> set (map title [mk_movie (Some (PyInt 1)) ''Alien'', mk_movie (Some (PyInt 2)) ''Heat''])"
proof -
  have run: "normalizer [mk_movie (Some (PyInt 5)) ''Heat'', mk_movie (Some (PyInt 2)) ''Unknown'',
               mk_movie (Some (PyInt 3)) ''Heat'', mk_movie (Some (PyInt 1)) ''Alien'']
     = Inr [mk_movie (Some (PyInt 1)) ''Alien'', mk_movie (Some (PyInt 2)) ''Heat'']"
    by (simp add: normalizer_def clean_def truthy_def py_sort_def rank_key_def mk_movie_def
          rerank_def enumerate_eq_zip)
  from normalizer_final_list_invariants[OF run] run show ?thesis
    by (simp add: mk_movie_def)
qed

section \<open>Normaliser: a rank of \<open>None\<close>\<close>

lemma rank_key_missing: "rank m = None \<Longrightarrow> rank_key m = PyInt 999"
  by (simp add: rank_key_def)

lemma rank_key_none: "rank m = Some PyNone \<Longrightarrow> rank_key m = PyNone"
  by (simp add: rank_key_def)

text \<open>
  Two or more cleaned items, one of them with \<open>'rank': None\<close> (what
  \<open>extract_from_classic_row\<close> stores when it finds no rank): the sort raises.
\<close>

lemma normalizer_none_rank_raises:
  assumes "2 \<le> length (clean xs)" and "m \<in> set (clean xs)" and "rank m = Some PyNone"
  shows "normalizer xs = Inl TypeError"
proof -
  have k: "rank_key m = PyNone" by (rule rank_key_none[OF assms(3)])
  have "\<not> list_all (\<lambda>x. is_PyInt (rank_key x)) (clean xs)"
    using assms(2) k by (auto simp: list_all_iff)
  moreover have "\<not> list_all (\<lambda>x. is_PyStr (rank_key x)) (clean xs)"
    using assms(2) k by (auto simp: list_all_iff)
  ultimately show ?thesis using assms(1) by (simp add: normalizer_def py_sort_def)
qed

text \<open>
  Claim C5. The claim: the sort orders by rank, an item with a missing rank is compared as
  if its rank were 999, and the sort never raises. The key \<open>x.get('rank', 999)\<close> gives
  999 only when the key \<open>rank\<close> is absent; the extractors of this file always store the
  key, with \<open>None\<close> when no rank was found. At the candidate list
  \<open>[{'rank': None, 'title': 'Heat', ...}, {'rank': 1, 'title': 'Alien', ...}]\<close> the sort
  compares \<open>None\<close> with \<open>1\<close> and the normalisation pass ends in a \<open>TypeError\<close>.
\<close>

theorem normalizer_none_rank_type_error:
  "normalizer [mk_movie (Some PyNone) ''Heat'', mk_movie (Some (PyInt 1)) ''Alien'']
     = Inl TypeError"
  by (simp add: normalizer_def clean_def truthy_def py_sort_def rank_key_def mk_movie_def)

section \<open>Normaliser: idempotence\<close>

lemma clean_loop_keeps_all:
  assumes "\<forall>m\<in>set ys. good_title m" "distinct (map title ys)"
    and "title ` set ys \<inter> Some ` seen = {}"
  shows "snd (foldl clean_step (seen, valid) ys) = valid @ ys"
  using assms
proof (induction ys arbitrary: seen valid)
  case Nil
  then show ?case by simp
next
  case (Cons m ys)
  from Cons.prems(1) obtain t where t: "title m = Some t" "truthy t" "t \<noteq> PyStr ''Unknown''"
    by (auto simp: good_title_def)
  from Cons.prems(3) t(1) have fresh: "t \<notin> seen" by auto
  have step: "clean_step (seen, valid) m = (insert t seen, valid @ [m])"
    using t fresh by simp
  have g: "\<forall>x\<in>set ys. good_title x" using Cons.prems(1) by simp
  have d: "distinct (map title ys)" using Cons.prems(2) by simp
  have "Some t \<notin> title ` set ys" using Cons.prems(2) t(1) by auto
  then have i: "title ` set ys \<inter> Some ` insert t seen = {}"
    using Cons.prems(3) by auto
  show ?case
    using Cons.IH[OF g d i, of "valid @ [m]"] by (simp add: step del: clean_step.simps)
qed

lemma clean_id:
  "\<forall>m\<in>set ys. good_title m \<Longrightarrow> distinct (map title ys) \<Longrightarrow> clean ys = ys"
  using clean_loop_keeps_all[of ys "{}" "[]"] by (simp add: clean_def)

lemma rank_key_seq:
  assumes "map rank ys = seq_ranks (length ys)"
  shows "map rank_key ys = map (\<lambda>i. PyInt (int i)) [1..<Suc (length ys)]"
proof (rule nth_equalityI)
  show "length (map rank_key ys) = length (map (\<lambda>i. PyInt (int i)) [1..<Suc (length ys)])"
    by (simp del: upt_Suc)
next
  fix i assume "i < length (map rank_key ys)"
  then have i: "i < length ys" by simp
  then have "rank (ys ! i) = seq_ranks (length ys) ! i"
    using assms by (metis nth_map)
  then have "rank_key (ys ! i) = PyInt (int (Suc i))"
    using i by (simp add: rank_key_def seq_ranks_nth)
  then show "map rank_key ys ! i = map (\<lambda>i. PyInt (int i)) [1..<Suc (length ys)] ! i"
    using i by (simp del: upt_Suc)
qed

lemma py_sort_seq:
  assumes "map rank ys = seq_ranks (length ys)"
  shows "py_sort rank_key ys = Inr ys"
proof -
  have k: "map rank_key ys = map (\<lambda>i. PyInt (int i)) [1..<Suc (length ys)]"
    by (rule rank_key_seq[OF assms])
  have "\<forall>k\<in>set (map rank_key ys). is_PyInt k" unfolding k by auto
  then have ints: "list_all (\<lambda>x. is_PyInt (rank_key x)) ys" by (simp add: list_all_iff)
  have "map (\<lambda>x. int_of (rank_key x)) ys = map int_of (map rank_key ys)" by simp
  also have "\<dots> = map int [1..<Suc (length ys)]" unfolding k by simp
  finally have "sorted (map (\<lambda>x. int_of (rank_key x)) ys)"
    by (simp add: sorted_map del: upt_Suc)
  then have "sort_key (\<lambda>x. int_of (rank_key x)) ys = ys" by (rule sort_key_id_if_sorted)
  with ints show ?thesis by (simp add: py_sort_def)
qed

lemma rerank_seq:
  assumes "map rank ys = seq_ranks (length ys)"
  shows "rerank ys = ys"
proof (rule nth_equalityI)
  show "length (rerank ys) = length ys" by (rule rerank_length)
next
  fix i assume "i < length (rerank ys)"
  then have i: "i < length ys" by (simp add: rerank_length)
  then have "rank (ys ! i) = seq_ranks (length ys) ! i"
    using assms by (metis nth_map)
  then have "rank (ys ! i) = Some (PyInt (int (Suc i)))" using i by (simp add: seq_ranks_nth)
  then have "(ys ! i)\<lparr>rank := Some (PyInt (int (Suc i)))\<rparr> = ys ! i" by simp
  then show "rerank ys ! i = ys ! i" using i by (simp add: rerank_nth)
qed

text \<open>
  Claim C6. The normalisation pass is idempotent: a list that the normaliser can return
  is returned unchanged when the normaliser runs on it again.
\<close>

theorem normalizer_idempotent:
  "normalizer all_movies = Inr final \<Longrightarrow> normalizer final = Inr final"
proof -
  assume a: "normalizer all_movies = Inr final"
  note p = normalizer_props[OF a]
  have "clean final = final" by (rule clean_id[OF p(3) p(2)])
  moreover have "py_sort rank_key final = Inr final" by (rule py_sort_seq[OF p(1)])
  moreover have "rerank final = final" by (rule rerank_seq[OF p(1)])
  ultimately show ?thesis using p(4) by (simp add: normalizer_def)
qed

theorem normalizer_idempotent_witness:
  "normalizer [mk_movie (Some (PyInt 7)) ''Heat'', mk_movie None ''Ran'',
               mk_movie (Some (PyInt 7)) ''Alien'', mk_movie (Some (PyInt 2)) ''Heat'']
     = Inr [mk_movie (Some (PyInt 1)) ''Heat'', mk_movie (Some (PyInt 2)) ''Alien'',
            mk_movie (Some (PyInt 3)) ''Ran'']
   \<and> normalizer [mk_movie (Some (PyInt 1)) ''Heat'', mk_movie (Some (PyInt 2)) ''Alien'',
                 mk_movie (Some (PyInt 3)) ''Ran'']
     = Inr [mk_movie (Some (PyInt 1)) ''Heat'', mk_movie (Some (PyInt 2)) ''Alien'',
            mk_movie (Some (PyInt 3)) ''Ran'']"
proof -
  have run: "normalizer [mk_movie (Some (PyInt 7)) ''Heat'', mk_movie None ''Ran'',
               mk_movie (Some (PyInt 7)) ''Alien'', mk_movie (Some (PyInt 2)) ''Heat'']
     = Inr [mk_movie (Some (PyInt 1)) ''Heat'', mk_movie (Some (PyInt 2)) ''Alien'',
            mk_movie (Some (PyInt 3)) ''Ran'']"
    by (simp add: normalizer_def clean_def truthy_def py_sort_def rank_key_def mk_movie_def
          rerank_def enumerate_eq_zip)
  from normalizer_idempotent[OF run] run show ?thesis by simp
qed

section \<open>Orchestrator: the longest candidate list wins\<close>

lemma first_longest_initial:
  "first_longest [a] (if length a > length ([]::'a list) then a else [])"
  by (cases a) (simp_all add: first_longest_def)

lemma first_longest_snoc:
  assumes "first_longest cs r"
  shows "first_longest (cs @ [c]) (if length c > length r then c else r)"
proof (cases "length c > length r")
  case True
  from assms have le: "\<forall>j<length cs. length (cs ! j) \<le> length r"
    by (auto simp: first_longest_def)
  have "\<forall>j<length cs. length ((cs @ [c]) ! j) < length c"
    using le True by (auto simp: nth_append)
  moreover have "\<forall>j<length (cs @ [c]). length ((cs @ [c]) ! j) \<le> length c"
    using le True by (auto simp: nth_append less_Suc_eq)
  ultimately show ?thesis
    unfolding first_longest_def using True
    by (intro exI[of _ "length cs"]) simp
next
  case False
  from assms obtain i where i: "i < length cs" "r = cs ! i"
    "\<forall>j<i. length (cs ! j) < length r" "\<forall>j<length cs. length (cs ! j) \<le> length r"
    by (auto simp: first_longest_def)
  have "\<forall>j<length (cs @ [c]). length ((cs @ [c]) ! j) \<le> length r"
    using i(4) False by (auto simp: nth_append less_Suc_eq)
  moreover have "\<forall>j<i. length ((cs @ [c]) ! j) < length r"
    using i(1,3) by (auto simp: nth_append)
  moreover have "r = (cs @ [c]) ! i" using i(1,2) by (simp add: nth_append)
  ultimately show ?thesis
    unfolding first_longest_def using False i(1)
    by (intro exI[of _ i]) simp
qed

text \<open>Which stages run: stage 2 and stage 3 are skipped once 200 items are at hand.\<close>

lemma run_stages_called:
  "fst (run_stages stage_result) =
     (if length (stage_result Classic) \<ge> 200 then [Classic]
      else if length (stage_result Paginated) \<ge> 200 then [Classic, Paginated]
      else [Classic, Paginated, Alternative])"
  by (cases "stage_result Classic") (auto simp: run_stages_def Let_def)

lemma run_stages_longest_of_called:
  "run_stages stage_result = (called, all_movies) \<Longrightarrow> first_longest (map stage_result called) all_movies"
proof -
  assume r: "run_stages stage_result = (called, all_movies)"
  let ?a1 = "if length (stage_result Classic) > length ([]::'a list) then stage_result Classic else []"
  have s1: "first_longest [stage_result Classic] ?a1" by (rule first_longest_initial)
  let ?a2 = "if length (stage_result Paginated) > length ?a1 then stage_result Paginated else ?a1"
  have s2: "first_longest ([stage_result Classic] @ [stage_result Paginated]) ?a2"
    by (rule first_longest_snoc[OF s1])
  let ?a3 = "if length (stage_result Alternative) > length ?a2 then stage_result Alternative else ?a2"
  have s3: "first_longest (([stage_result Classic] @ [stage_result Paginated]) @ [stage_result Alternative]) ?a3"
    by (rule first_longest_snoc[OF s2])
  show ?thesis
  proof (cases "length ?a1 < 200")
    case False
    with r have "called = [Classic]" "all_movies = ?a1"
      by (auto simp: run_stages_def Let_def split: if_splits)
    with s1 show ?thesis by simp
  next
    case a: True
    show ?thesis
    proof (cases "length ?a2 < 200")
      case False
      with a r have "called = [Classic, Paginated]" "all_movies = ?a2"
        by (auto simp: run_stages_def Let_def split: if_splits)
      with s2 show ?thesis by simp
    next
      case True
      with a r have "called = [Classic, Paginated, Alternative]" "all_movies = ?a3"
        by (auto simp: run_stages_def Let_def split: if_splits)
      with s3 show ?thesis by simp
    qed
  qed
qed

text \<open>
  Claim C2. The stages of \<open>scrape_top250\<close> run in order; stage 1 always runs, and a
  later stage runs exactly when every stage before it returned fewer than 200 items. Of
  the candidate lists that the stages which ran return, the working list before
  normalisation is the longest one; when two of them have the same length, the list of
  the earlier stage is kept. So of two lists of lengths 120 and 80 the one of length 120
  is chosen, whichever stage returned it.
\<close>

theorem run_stages_first_longest:
  "run_stages stage_result = (called, all_movies) \<Longrightarrow>
     called = (if 200 \<le> length (stage_result Classic) then [Classic]
               else if 200 \<le> length (stage_result Paginated) then [Classic, Paginated]
               else [Classic, Paginated, Alternative])
     \<and> first_longest (map stage_result called) all_movies"
proof -
  assume r: "run_stages stage_result = (called, all_movies)"
  from run_stages_called[of stage_result] r
  have "called = (if 200 \<le> length (stage_result Classic) then [Classic]
               else if 200 \<le> length (stage_result Paginated) then [Classic, Paginated]
               else [Classic, Paginated, Alternative])"
    by simp
  with run_stages_longest_of_called[OF r] show ?thesis by simp
qed

theorem run_stages_first_longest_witness:
  "run_stages stages_120_80 = ([Classic, Paginated, Alternative], replicate 120 1)
   \<and> first_longest [replicate 120 1, replicate 80 2, []] (replicate 120 (1::nat))
   \<and> run_stages stages_80_120 = ([Classic, Paginated, Alternative], replicate 120 2)
   \<and> first_longest [replicate 80 1, replicate 120 2, replicate 120 3] (replicate 120 (2::nat))
   \<and> run_stages stages_250 = ([Classic], replicate 250 1)
   \<and> first_longest [replicate 250 1] (replicate 250 (1::nat))"
proof -
  have r1: "run_stages stages_120_80 = ([Classic, Paginated, Alternative], replicate 120 1)"
    by (simp add: run_stages_def stages_120_80_def)
  have r2: "run_stages stages_80_120 = ([Classic, Paginated, Alternative], replicate 120 2)"
    by (simp add: run_stages_def stages_80_120_def)
  have r3: "run_stages stages_250 = ([Classic], replicate 250 1)"
    by (simp add: run_stages_def stages_250_def)
  from run_stages_first_longest[OF r1]
  have f1: "first_longest [replicate 120 1, replicate 80 2, []] (replicate 120 (1::nat))"
    by (simp add: stages_120_80_def)
  from run_stages_first_longest[OF r2]
  have f2: "first_longest [replicate 80 1, replicate 120 2, replicate 120 3]
              (replicate 120 (2::nat))"
    by (simp add: stages_80_120_def)
  from run_stages_first_longest[OF r3]
  have f3: "first_longest [replicate 250 1] (replicate 250 (1::nat))"
    by (simp add: stages_250_def)
  from r1 r2 r3 f1 f2 f3 show ?thesis by simp
qed

section \<open>Embedded-script regex hypothesis\<close>

lemma embedded_movie_Some:
  "embedded_movie L years ratings i t = Some m \<Longrightarrow> m = embedded_item L years ratings (i, t)"
  by (auto simp: embedded_movie_def embedded_item_def split: if_splits bind_splits)

lemma embedded_titles_Some:
  "embedded_titles L years ratings its movies = Some out \<Longrightarrow>
     out = movies @ map (embedded_item L years ratings) its"
proof (induction its arbitrary: movies)
  case Nil
  then show ?case by simp
next
  case (Cons it its)
  obtain i t where it: "it = (i, t)" by (cases it)
  from Cons.prems it obtain m where m: "embedded_movie L years ratings i t = Some m"
    and rest: "embedded_titles L years ratings its (movies @ [m]) = Some out"
    by (auto split: option.splits)
  from Cons.IH[OF rest] embedded_movie_Some[OF m] show ?case by (simp add: it)
qed

lemma embedded_patterns_Some:
  "embedded_patterns L sc ps [] = Some out \<Longrightarrow>
     out = [] \<or> (\<exists>p\<in>set ps. out = map (embedded_item L (re_findall L ReleaseYear sc)
                       (re_findall L RatingValue sc))
                     (enumerate 0 (take 250 (re_findall L p sc))))"
proof (induction ps)
  case Nil
  then show ?case by simp
next
  case (Cons p ps)
  show ?case
  proof (cases "length (re_findall L p sc) > 50")
    case False
    with Cons.prems have "embedded_patterns L sc ps [] = Some out" by (simp add: Let_def)
    from Cons.IH[OF this] show ?thesis by auto
  next
    case True
    with Cons.prems obtain ms where
      ms: "embedded_titles L (re_findall L ReleaseYear sc) (re_findall L RatingValue sc)
             (enumerate 0 (take 250 (re_findall L p sc))) [] = Some ms"
      and rest: "if ms \<noteq> [] then out = ms else embedded_patterns L sc ps ms = Some out"
      by (auto simp: Let_def split: option.splits if_splits)
    from embedded_titles_Some[OF ms]
    have eq: "ms = map (embedded_item L (re_findall L ReleaseYear sc)
                  (re_findall L RatingValue sc)) (enumerate 0 (take 250 (re_findall L p sc)))"
      by simp
    show ?thesis
    proof (cases "ms = []")
      case True
      with rest have "embedded_patterns L sc ps [] = Some out" by simp
      from Cons.IH[OF this] show ?thesis by auto
    next
      case False
      with rest eq show ?thesis by auto
    qed
  qed
qed

lemma embedded_shape:
  "extract_from_embedded_json L sc = [] \<or>
   (\<exists>p\<in>set patterns. extract_from_embedded_json L sc =
       map (embedded_item L (re_findall L ReleaseYear sc) (re_findall L RatingValue sc))
         (enumerate 0 (take 250 (re_findall L p sc))))"
proof (cases "embedded_patterns L sc patterns []")
  case None
  then show ?thesis by (simp add: extract_from_embedded_json_def)
next
  case (Some out)
  from embedded_patterns_Some[OF Some] Some show ?thesis
    by (simp add: extract_from_embedded_json_def)
qed

lemma embedded_at_most_250: "length (extract_from_embedded_json L sc) \<le> 250"
  using embedded_shape[of L sc] by auto

text \<open>When no conversion raises, every title yields its dict.\<close>

lemma embedded_movie_ok:
  assumes "\<forall>y\<in>set years. py_int L y \<noteq> None" "\<forall>r\<in>set ratings. py_float L r \<noteq> None"
  shows "embedded_movie L years ratings i t = Some (embedded_item L years ratings (i, t))"
proof -
  have y: "i < length years \<Longrightarrow> \<exists>n. py_int L (years ! i) = Some n"
    using assms(1) by (metis nth_mem not_None_eq)
  have r: "i < length ratings \<Longrightarrow> \<exists>x. py_float L (ratings ! i) = Some x"
    using assms(2) by (metis nth_mem not_None_eq)
  show ?thesis
    using y r by (auto simp: embedded_movie_def embedded_item_def)
qed

lemma embedded_titles_ok:
  assumes "\<forall>y\<in>set years. py_int L y \<noteq> None" "\<forall>r\<in>set ratings. py_float L r \<noteq> None"
  shows "embedded_titles L years ratings its movies
           = Some (movies @ map (embedded_item L years ratings) its)"
proof (induction its arbitrary: movies)
  case Nil
  show ?case by simp
next
  case (Cons it its)
  obtain i t where it: "it = (i, t)" by (cases it)
  show ?case
    by (simp add: it embedded_movie_ok[OF assms] Cons.IH)
qed

lemma embedded_patterns_skip:
  "\<forall>q\<in>set pre. length (re_findall L q sc) \<le> 50 \<Longrightarrow>
     embedded_patterns L sc (pre @ ps) movies = embedded_patterns L sc ps movies"
  by (induction pre) (simp_all add: Let_def)

lemma embedded_first_match:
  assumes "patterns = pre @ p # post"
    and "\<forall>q\<in>set pre. length (re_findall L q sc) \<le> 50"
    and "50 < length (re_findall L p sc)"
    and "\<forall>y\<in>set (re_findall L ReleaseYear sc). py_int L y \<noteq> None"
    and "\<forall>r\<in>set (re_findall L RatingValue sc). py_float L r \<noteq> None"
  shows "extract_from_embedded_json L sc =
           map (embedded_item L (re_findall L ReleaseYear sc) (re_findall L RatingValue sc))
             (enumerate 0 (take 250 (re_findall L p sc)))"
proof -
  have "re_findall L p sc \<noteq> []" using assms(3) by auto
  then have "0 < length (enumerate 0 (take 250 (re_findall L p sc)))"
    by simp
  then have ne: "enumerate 0 (take 250 (re_findall L p sc)) \<noteq> []"
    by fastforce
  have "embedded_patterns L sc patterns [] = embedded_patterns L sc (p # post) []"
    unfolding assms(1) by (rule embedded_patterns_skip[OF assms(2)])
  also have "\<dots> = Some (map (embedded_item L (re_findall L ReleaseYear sc)
                       (re_findall L RatingValue sc))
                     (enumerate 0 (take 250 (re_findall L p sc))))"
    using assms(3) ne by (simp add: Let_def embedded_titles_ok[OF assms(4,5)])
  finally show ?thesis by (simp add: extract_from_embedded_json_def)
qed

lemma embedded_demo_result:
  "extract_from_embedded_json demo_lib embedded_script =
     map (embedded_item demo_lib (replicate 55 ''1995'') (replicate 58 ''8.3''))
       (enumerate 0 (replicate 60 ''Heat''))"
proof -
  have "extract_from_embedded_json demo_lib embedded_script =
     map (embedded_item demo_lib (re_findall demo_lib ReleaseYear embedded_script)
            (re_findall demo_lib RatingValue embedded_script))
       (enumerate 0 (take 250 (re_findall demo_lib TitleText embedded_script)))"
    by (rule embedded_first_match[of "[]" TitleText "[PrimaryText, TitleKey]"])
       (simp_all add: patterns_def demo_lib_def)
  then show ?thesis by (simp add: demo_lib_def)
qed

text \<open>
  Claim C7. When the title pattern that the hypothesis uses (the first of the three with
  more than 50 matches) has more matches than the year pattern or the rating pattern,
  \<open>extract_from_embedded_json\<close> still returns one item per title, up to 250; an item whose
  index is beyond the year matches has \<open>year = None\<close>, and likewise for the rating. With
  60 titles and 55 years the items 55 to 59 have no year. The function has a catch-all
  handler, so no exception escapes, and it never returns more than 250 items.
  (\<open>int()\<close> and \<open>float()\<close> do not raise on what their patterns match; that is the
  hypothesis on \<open>py_int\<close> and \<open>py_float\<close>.)
\<close>

theorem embedded_misaligned_arrays:
  "length (extract_from_embedded_json L sc) \<le> 250 \<and>
   (patterns = pre @ p # post
    \<and> (\<forall>q\<in>set pre. length (re_findall L q sc) \<le> 50)
    \<and> 50 < length (re_findall L p sc)
    \<and> (\<forall>y\<in>set (re_findall L ReleaseYear sc). py_int L y \<noteq> None)
    \<and> (\<forall>r\<in>set (re_findall L RatingValue sc). py_float L r \<noteq> None)
    \<longrightarrow> length (extract_from_embedded_json L sc) = min 250 (length (re_findall L p sc))
      \<and> (\<forall>i<length (extract_from_embedded_json L sc).
            title (extract_from_embedded_json L sc ! i) = Some (PyStr (re_findall L p sc ! i))
          \<and> year (extract_from_embedded_json L sc ! i)
              = (if i < length (re_findall L ReleaseYear sc)
                 then py_int L (re_findall L ReleaseYear sc ! i) else None)
          \<and> rating (extract_from_embedded_json L sc ! i)
              = (if i < length (re_findall L RatingValue sc)
                 then py_float L (re_findall L RatingValue sc ! i) else None)))"
proof (intro conjI impI)
  show "length (extract_from_embedded_json L sc) \<le> 250" by (rule embedded_at_most_250)
next
  assume h: "patterns = pre @ p # post
    \<and> (\<forall>q\<in>set pre. length (re_findall L q sc) \<le> 50)
    \<and> 50 < length (re_findall L p sc)
    \<and> (\<forall>y\<in>set (re_findall L ReleaseYear sc). py_int L y \<noteq> None)
    \<and> (\<forall>r\<in>set (re_findall L RatingValue sc). py_float L r \<noteq> None)"
  then have h1: "patterns = pre @ p # post"
    and h2: "\<forall>q\<in>set pre. length (re_findall L q sc) \<le> 50"
    and h3: "50 < length (re_findall L p sc)"
    and h4: "\<forall>y\<in>set (re_findall L ReleaseYear sc). py_int L y \<noteq> None"
    and h5: "\<forall>r\<in>set (re_findall L RatingValue sc). py_float L r \<noteq> None"
    by blast+
  have eq: "extract_from_embedded_json L sc =
           map (embedded_item L (re_findall L ReleaseYear sc) (re_findall L RatingValue sc))
             (enumerate 0 (take 250 (re_findall L p sc)))"
    by (rule embedded_first_match[OF h1 h2 h3 h4 h5])
  show "length (extract_from_embedded_json L sc) = min 250 (length (re_findall L p sc))"
    unfolding eq by (simp add: min.commute)
  show "\<forall>i<length (extract_from_embedded_json L sc).
            title (extract_from_embedded_json L sc ! i) = Some (PyStr (re_findall L p sc ! i))
          \<and> year (extract_from_embedded_json L sc ! i)
              = (if i < length (re_findall L ReleaseYear sc)
                 then py_int L (re_findall L ReleaseYear sc ! i) else None)
          \<and> rating (extract_from_embedded_json L sc ! i)
              = (if i < length (re_findall L RatingValue sc)
                 then py_float L (re_findall L RatingValue sc ! i) else None)"
    unfolding eq by (simp add: nth_enumerate_eq embedded_item_def)
qed

theorem embedded_misaligned_arrays_witness:
  "length (re_findall demo_lib TitleText embedded_script) = 60
   \<and> length (re_findall demo_lib ReleaseYear embedded_script) = 55
   \<and> length (re_findall demo_lib RatingValue embedded_script) = 58
   \<and> length (extract_from_embedded_json demo_lib embedded_script) = 60
   \<and> year (extract_from_embedded_json demo_lib embedded_script ! 54) = Some 1995
   \<and> year (extract_from_embedded_json demo_lib embedded_script ! 55) = None
   \<and> year (extract_from_embedded_json demo_lib embedded_script ! 59) = None
   \<and> rating (extract_from_embedded_json demo_lib embedded_script ! 57) = Some (83 / 10)
   \<and> rating (extract_from_embedded_json demo_lib embedded_script ! 58) = None
   \<and> title (extract_from_embedded_json demo_lib embedded_script ! 59) = Some (PyStr ''Heat'')"
proof -
  have hyp: "patterns = [] @ TitleText # [PrimaryText, TitleKey]
    \<and> (\<forall>q\<in>set []. length (re_findall demo_lib q embedded_script) \<le> 50)
    \<and> 50 < length (re_findall demo_lib TitleText embedded_script)
    \<and> (\<forall>y\<in>set (re_findall demo_lib ReleaseYear embedded_script). py_int demo_lib y \<noteq> None)
    \<and> (\<forall>r\<in>set (re_findall demo_lib RatingValue embedded_script). py_float demo_lib r \<noteq> None)"
    by (simp add: patterns_def demo_lib_def)
  from embedded_misaligned_arrays[of demo_lib embedded_script "[]" TitleText
         "[PrimaryText, TitleKey]"] hyp
  have len: "length (extract_from_embedded_json demo_lib embedded_script)
        = min 250 (length (re_findall demo_lib TitleText embedded_script))"
    and *: "\<forall>i<length (extract_from_embedded_json demo_lib embedded_script).
            title (extract_from_embedded_json demo_lib embedded_script ! i)
              = Some (PyStr (re_findall demo_lib TitleText embedded_script ! i))
          \<and> year (extract_from_embedded_json demo_lib embedded_script ! i)
              = (if i < length (re_findall demo_lib ReleaseYear embedded_script)
                 then py_int demo_lib (re_findall demo_lib ReleaseYear embedded_script ! i)
                 else None)
          \<and> rating (extract_from_embedded_json demo_lib embedded_script ! i)
              = (if i < length (re_findall demo_lib RatingValue embedded_script)
                 then py_float demo_lib (re_findall demo_lib RatingValue embedded_script ! i)
                 else None)"
    by blast+
  have l60: "length (extract_from_embedded_json demo_lib embedded_script) = 60"
    using len by (simp add: demo_lib_def)
  from * l60 have
    "year (extract_from_embedded_json demo_lib embedded_script ! 54) = Some 1995"
    "year (extract_from_embedded_json demo_lib embedded_script ! 55) = None"
    "year (extract_from_embedded_json demo_lib embedded_script ! 59) = None"
    "rating (extract_from_embedded_json demo_lib embedded_script ! 57) = Some (83 / 10)"
    "rating (extract_from_embedded_json demo_lib embedded_script ! 58) = None"
    "title (extract_from_embedded_json demo_lib embedded_script ! 59) = Some (PyStr ''Heat'')"
    by (simp_all add: demo_lib_def)
  with l60 show ?thesis by (simp add: demo_lib_def)
qed

text \<open>
  Claim C10. Every item that \<open>extract_from_embedded_json\<close> returns has \<open>url = None\<close> and
  a rank equal to its 1-based position in the returned list: a result of this hypothesis
  carries no detail-page URL, and its ranks are \<open>1, ..., n\<close> before normalisation.
\<close>

theorem embedded_items_rank_url:
  "\<forall>i<length (extract_from_embedded_json L sc).
      url (extract_from_embedded_json L sc ! i) = None
      \<and> rank (extract_from_embedded_json L sc ! i) = Some (PyInt (int i + 1))"
proof -
  from embedded_shape[of L sc] show ?thesis
  proof
    assume "extract_from_embedded_json L sc = []"
    then show ?thesis by simp
  next
    assume "\<exists>p\<in>set patterns. extract_from_embedded_json L sc =
       map (embedded_item L (re_findall L ReleaseYear sc) (re_findall L RatingValue sc))
         (enumerate 0 (take 250 (re_findall L p sc)))"
    then obtain p where
      eq: "extract_from_embedded_json L sc =
       map (embedded_item L (re_findall L ReleaseYear sc) (re_findall L RatingValue sc))
         (enumerate 0 (take 250 (re_findall L p sc)))" by blast
    show ?thesis unfolding eq
      by (simp add: nth_enumerate_eq embedded_item_def)
  qed
qed

theorem embedded_items_rank_url_witness:
  "length (extract_from_embedded_json demo_lib embedded_script) = 60
   \<and> url (extract_from_embedded_json demo_lib embedded_script ! 0) = None
   \<and> rank (extract_from_embedded_json demo_lib embedded_script ! 0) = Some (PyInt 1)
   \<and> url (extract_from_embedded_json demo_lib embedded_script ! 59) = None
   \<and> rank (extract_from_embedded_json demo_lib embedded_script ! 59) = Some (PyInt 60)"
proof -
  have l60: "length (extract_from_embedded_json demo_lib embedded_script) = 60"
    by (simp add: embedded_demo_result)
  from embedded_items_rank_url[of demo_lib embedded_script] l60
  have "url (extract_from_embedded_json demo_lib embedded_script ! 0) = None
      \<and> rank (extract_from_embedded_json demo_lib embedded_script ! 0) = Some (PyInt (int 0 + 1))"
    and "url (extract_from_embedded_json demo_lib embedded_script ! 59) = None
      \<and> rank (extract_from_embedded_json demo_lib embedded_script ! 59)
          = Some (PyInt (int 59 + 1))"
    by simp_all
  with l60 show ?thesis by simp
qed

section \<open>Detail enricher\<close>

lemma first_director_none:
  "\<forall>s\<in>set sels. select soup s = [] \<Longrightarrow> first_director soup sels = ''Unknown''"
  by (induction sels) (simp_all add: select_one_def)

lemma first_genres_none:
  "\<forall>s\<in>set sels. select soup s = [] \<Longrightarrow> first_genres soup sels = []"
  by (induction sels) simp_all

lemma details_body_fields:
  assumes "details_body L soup = Some d"
  shows "director d = first_director soup director_selectors"
    and "re_search L RuntimeMin (get_text soup False) = None \<Longrightarrow> runtime_minutes d = None"
    and "first_genres soup genre_selectors = [] \<Longrightarrow> genres d = ''Unknown''"
  using assms
  by (auto simp: details_body_def search_int_def Let_def split: bind_splits option.splits)

text \<open>
  Claim C9. On a detail page where no director selector matches,
  \<open>get_additional_details\<close> returns \<open>director = "Unknown"\<close>; the runtime is \<open>None\<close> when
  the runtime pattern does not match, and the genres are \<open>"Unknown"\<close> when no genre
  selector matches. When the fetch gives no response, or anything raises, the record of
  sentinels is returned: the function has a value for every input and never raises.
\<close>

theorem get_additional_details_sentinels:
  "((\<forall>s\<in>set director_selectors. select soup s = [])
      \<longrightarrow> director (get_additional_details L (Page soup)) = ''Unknown'')
   \<and> (re_search L RuntimeMin (get_text soup False) = None
      \<longrightarrow> runtime_minutes (get_additional_details L (Page soup)) = None)
   \<and> ((\<forall>s\<in>set genre_selectors. select soup s = [])
      \<longrightarrow> genres (get_additional_details L (Page soup)) = ''Unknown'')
   \<and> get_additional_details L NoResponse = unknown_detail
   \<and> get_additional_details L FetchRaised = unknown_detail"
proof (cases "details_body L soup")
  case None
  then show ?thesis by (simp add: get_additional_details_def unknown_detail_def)
next
  case (Some d)
  then have g: "get_additional_details L (Page soup) = d"
    by (simp add: get_additional_details_def)
  note f = details_body_fields[OF Some]
  show ?thesis
    unfolding g
    using f(1) f(2) f(3) first_director_none[of director_selectors soup]
      first_genres_none[of genre_selectors soup]
    by (simp add: get_additional_details_def)
qed

theorem get_additional_details_sentinels_witness:
  \<open>select detail_page ''a[class*="ipc-metadata-list-item__list-content-item--link"]'' = []
   \<and> select detail_page ''.credit_summary_item a'' = []
   \<and> select detail_page ''[data-testid="title-pc-principal-credit"] a'' = []
   \<and> get_additional_details demo_lib (Page detail_page)
       = \<lparr>director = ''Unknown'', runtime_minutes = Some 170, genres = ''Crime''\<rparr>\<close>
proof -
  have sel: "\<forall>s\<in>set director_selectors. select detail_page s = []"
    by (simp add: director_selectors_def detail_page_def)
  have body: "details_body demo_lib detail_page
      = Some \<lparr>director = first_director detail_page director_selectors,
              runtime_minutes = Some 170, genres = ''Crime''\<rparr>"
    by (simp add: details_body_def search_int_def demo_lib_def detail_page_def
          genre_selectors_def leaf_def)
  from get_additional_details_sentinels[of detail_page demo_lib] sel
  have "director (get_additional_details demo_lib (Page detail_page)) = ''Unknown''" by blast
  then show ?thesis
    using body by (simp add: get_additional_details_def detail_page_def)
qed

section \<open>Generic selector sweep\<close>

lemma sweep_elements_replicate:
  assumes "\<And>i. extract_movie_data_generic L e i = Some (f i)"
    and "\<And>i. title (f i) \<noteq> Some (PyStr ''Unknown'')"
  shows "sweep_elements L (enumerate n (replicate k e)) movies = movies @ map f [n..<n + k]"
proof (induction k arbitrary: n movies)
  case 0
  show ?case by simp
next
  case (Suc k)
  have "[n..<n + Suc k] = n # [Suc n..<Suc n + k]" by (simp add: upt_conv_Cons)
  then show ?case using Suc.IH[of "Suc n" "movies @ [f n]"] assms by simp
qed

lemma generic_card_Early:
  "extract_movie_data_generic demo_lib (card_elem ''Early'') i
     = Some (mk_movie (Some (PyInt (int i))) ''Early'')"
  by (simp add: extract_movie_data_generic_def title_selectors_def year_selectors_def
        rating_selectors_def select_one_def card_elem_def leaf_def demo_lib_def href_url_def
        mk_movie_def)

lemma generic_card_Later:
  "extract_movie_data_generic demo_lib (card_elem ''Later'') i
     = Some (mk_movie (Some (PyInt (int i))) ''Later'')"
  by (simp add: extract_movie_data_generic_def title_selectors_def year_selectors_def
        rating_selectors_def select_one_def card_elem_def leaf_def demo_lib_def href_url_def
        mk_movie_def)

text \<open>
  Claim C3. The claim: the sweep's result comes from the first selector that yields more
  than 50 elements, so with 10 elements for an earlier selector and 60 for a later one the
  output holds the later selector's items and not the earlier one's. The source says the
  same of itself (\<open># If we got a good number, use this selector\<close>), but \<open>movies\<close> is
  not reset between selectors, and the threshold tests the accumulated list. On
  \<open>sweep_page\<close> the output has 70 items: the 10 of the earlier selector, then the 60 of
  the later one.
\<close>

theorem parse_html_keeps_earlier_selector_items:
  "parse_html_for_movies demo_lib sweep_page
     = map (\<lambda>i. mk_movie (Some (PyInt (int i))) ''Early'') [1..<11]
       @ map (\<lambda>i. mk_movie (Some (PyInt (int i))) ''Later'') [1..<61]"
proof -
  have t: "\<And>i t. title (mk_movie (Some (PyInt (int i))) t) \<noteq> Some (PyStr ''Unknown'')
             \<longleftrightarrow> t \<noteq> ''Unknown''"
    by (simp add: mk_movie_def)
  have e: "\<And>ms. sweep_elements demo_lib (enumerate (Suc 0) (replicate 10 (card_elem ''Early''))) ms
             = ms @ map (\<lambda>i. mk_movie (Some (PyInt (int i))) ''Early'') [Suc 0..<11]"
    using sweep_elements_replicate[OF generic_card_Early, of "Suc 0" 10] by (simp add: t)
  have l: "\<And>ms. sweep_elements demo_lib (enumerate (Suc 0) (replicate 60 (card_elem ''Later''))) ms
             = ms @ map (\<lambda>i. mk_movie (Some (PyInt (int i))) ''Later'') [Suc 0..<61]"
    using sweep_elements_replicate[OF generic_card_Later, of "Suc 0" 60] by (simp add: t)
  show ?thesis
    by (simp add: parse_html_for_movies_def selectors_def sweep_page_def e l Let_def
          del: upt_Suc)
qed

section \<open>Modern card list: rank by position\<close>

lemma extract_from_container_rank:
  "extract_from_container L container i = Some m \<Longrightarrow> rank m = Some (PyInt (int i))"
  by (auto simp: extract_from_container_def Let_def split: bind_splits)

lemma card_containers_ranks:
  "map rank (card_containers L ics movies) =
     map rank movies
     @ map (\<lambda>(i, c). Some (PyInt (int i)))
         (filter (\<lambda>(i, c). extract_from_container L c i \<noteq> None) ics)"
proof (induction ics arbitrary: movies)
  case Nil
  show ?case by simp
next
  case (Cons ic ics)
  obtain i c where ic: "ic = (i, c)" by (cases ic)
  show ?case
  proof (cases "extract_from_container L c i")
    case None
    then show ?thesis using Cons.IH[of movies] by (simp add: ic)
  next
    case (Some m)
    from extract_from_container_rank[OF Some] Some
    show ?thesis using Cons.IH[of "movies @ [m]"] by (simp add: ic)
  qed
qed

lemma extract_from_container_title:
  "extract_from_container L container i = Some m \<Longrightarrow>
     title m = Some (PyStr
       (case find_first container (ByClass ''h3'' ''ipc-title__text'') of
          None \<Rightarrow> ''Unknown''
        | Some e \<Rightarrow> (case re_match L RankPrefix (get_text e True) of
                       Some g \<Rightarrow> g
                     | None \<Rightarrow> get_text e True)))"
  by (auto simp: extract_from_container_def Let_def split: bind_splits option.splits)

lemma card_containers_titles:
  "map title (card_containers L ics movies) =
     map title movies
     @ map (\<lambda>(i, c). Some (PyStr
              (case find_first c (ByClass ''h3'' ''ipc-title__text'') of
                 None \<Rightarrow> ''Unknown''
               | Some e \<Rightarrow> (case re_match L RankPrefix (get_text e True) of
                              Some g \<Rightarrow> g
                            | None \<Rightarrow> get_text e True))))
         (filter (\<lambda>(i, c). extract_from_container L c i \<noteq> None) ics)"
proof (induction ics arbitrary: movies)
  case Nil
  show ?case by simp
next
  case (Cons ic ics)
  obtain i c where ic: "ic = (i, c)" by (cases ic)
  show ?case
  proof (cases "extract_from_container L c i")
    case None
    then show ?thesis using Cons.IH[of movies] by (simp add: ic)
  next
    case (Some m)
    from extract_from_container_title[OF Some] Some
    show ?thesis using Cons.IH[of "movies @ [m]"] by (simp add: ic)
  qed
qed

text \<open>
  Claim C8, as amended. In the modern card-list hypothesis (reached when the classic
  table yields no item) each item's rank is the 1-based position of its container among
  the item-summary containers, whatever the container's text says. A leading rank prefix
  in the title text (\<open>"7. Title"\<close>) is removed from the title: the title is group 1 of
  the match of \<open>RankPrefix\<close> on the heading's text, the text itself when the pattern
  does not match, and \<open>"Unknown"\<close> when the container has no heading. The prefix has
  no effect on the rank. (A container whose extraction raises yields no item; the
  positions of the others are unchanged.)
\<close>

theorem card_list_rank_is_position:
  "(case find_first soup (ByClass ''tbody'' ''lister-list'') of
      None \<Rightarrow> []
    | Some tbody \<Rightarrow> classic_rows L (find_all tbody (ByName ''tr'')) []) = []
   \<Longrightarrow> card_containers L
         (enumerate 1 (find_all soup (ByClass ''li'' ''ipc-metadata-list-summary-item''))) [] \<noteq> []
   \<Longrightarrow> map rank (extract_from_classic_page L soup) =
         map (\<lambda>(i, c). Some (PyInt (int i)))
           (filter (\<lambda>(i, c). extract_from_container L c i \<noteq> None)
              (enumerate 1 (find_all soup (ByClass ''li'' ''ipc-metadata-list-summary-item''))))
       \<and> map title (extract_from_classic_page L soup) =
         map (\<lambda>(i, c). Some (PyStr
                (case find_first c (ByClass ''h3'' ''ipc-title__text'') of
                   None \<Rightarrow> ''Unknown''
                 | Some e \<Rightarrow> (case re_match L RankPrefix (get_text e True) of
                                Some g \<Rightarrow> g
                              | None \<Rightarrow> get_text e True))))
           (filter (\<lambda>(i, c). extract_from_container L c i \<noteq> None)
              (enumerate 1 (find_all soup (ByClass ''li'' ''ipc-metadata-list-summary-item''))))"
proof -
  assume a: "(case find_first soup (ByClass ''tbody'' ''lister-list'') of
      None \<Rightarrow> []
    | Some tbody \<Rightarrow> classic_rows L (find_all tbody (ByName ''tr'')) []) = []"
    and b: "card_containers L
         (enumerate 1 (find_all soup (ByClass ''li'' ''ipc-metadata-list-summary-item''))) [] \<noteq> []"
  have "extract_from_classic_page L soup =
          card_containers L
            (enumerate 1 (find_all soup (ByClass ''li'' ''ipc-metadata-list-summary-item''))) []"
    using a b by (simp add: extract_from_classic_page_def Let_def)
  then show ?thesis by (simp add: card_containers_ranks card_containers_titles)
qed

lemma prefixed_page_result:
  "extract_from_classic_page demo_lib prefixed_page
     = [mk_movie (Some (PyInt 1)) ''Heat'', mk_movie (Some (PyInt 2)) ''Alien'']"
  by (simp add: extract_from_classic_page_def find_first_def prefixed_page_def
        extract_from_container_def card_elem_def leaf_def demo_lib_def href_url_def
        mk_movie_def enumerate_eq_zip Let_def)

theorem card_list_rank_is_position_witness:
  "find_first prefixed_page (ByClass ''tbody'' ''lister-list'') = None
   \<and> find_all prefixed_page (ByClass ''li'' ''ipc-metadata-list-summary-item'')
       = [card_elem ''7. Heat'', card_elem ''Alien'']
   \<and> map (\<lambda>e. get_text e True) (find_all (card_elem ''7. Heat'') (ByClass ''h3'' ''ipc-title__text''))
       = [''7. Heat'']
   \<and> re_match demo_lib RankPrefix ''7. Heat'' = Some ''Heat''
   \<and> re_match demo_lib RankPrefix ''Alien'' = None
   \<and> map rank (extract_from_classic_page demo_lib prefixed_page)
       = [Some (PyInt 1), Some (PyInt 2)]
   \<and> map title (extract_from_classic_page demo_lib prefixed_page)
       = [Some (PyStr ''Heat''), Some (PyStr ''Alien'')]"
proof -
  have a: "(case find_first prefixed_page (ByClass ''tbody'' ''lister-list'') of
      None \<Rightarrow> []
    | Some tbody \<Rightarrow> classic_rows demo_lib (find_all tbody (ByName ''tr'')) []) = []"
    by (simp add: find_first_def prefixed_page_def)
  have c1: "\<And>i. extract_from_container demo_lib (card_elem ''7. Heat'') i
              = Some (mk_movie (Some (PyInt (int i))) ''Heat'')"
    by (simp add: extract_from_container_def find_first_def card_elem_def leaf_def
          demo_lib_def href_url_def mk_movie_def)
  have c2: "\<And>i. extract_from_container demo_lib (card_elem ''Alien'') i
              = Some (mk_movie (Some (PyInt (int i))) ''Alien'')"
    by (simp add: extract_from_container_def find_first_def card_elem_def leaf_def
          demo_lib_def href_url_def mk_movie_def)
  have cards: "find_all prefixed_page (ByClass ''li'' ''ipc-metadata-list-summary-item'')
       = [card_elem ''7. Heat'', card_elem ''Alien'']"
    by (simp add: prefixed_page_def)
  have h1: "find_first (card_elem ''7. Heat'') (ByClass ''h3'' ''ipc-title__text'')
              = Some (leaf ''7. Heat'')"
    and h2: "find_first (card_elem ''Alien'') (ByClass ''h3'' ''ipc-title__text'')
              = Some (leaf ''Alien'')"
    by (simp_all add: find_first_def card_elem_def)
  have m1: "re_match demo_lib RankPrefix ''7. Heat'' = Some ''Heat''"
    and m2: "re_match demo_lib RankPrefix ''Alien'' = None"
    by (simp_all add: demo_lib_def)
  have t: "\<And>s. get_text (leaf s) True = s" by (simp add: leaf_def)
  have b: "card_containers demo_lib
         (enumerate 1 (find_all prefixed_page (ByClass ''li'' ''ipc-metadata-list-summary-item'')))
         [] \<noteq> []"
    by (simp add: cards enumerate_eq_zip upt_conv_Cons c1 c2)
  from card_list_rank_is_position[OF a b]
  have r: "map rank (extract_from_classic_page demo_lib prefixed_page)
       = [Some (PyInt 1), Some (PyInt 2)]"
    and ti: "map title (extract_from_classic_page demo_lib prefixed_page)
       = [Some (PyStr ''Heat''), Some (PyStr ''Alien'')]"
    by (simp_all add: cards enumerate_eq_zip upt_conv_Cons c1 c2 h1 h2 m1 m2 t)
  have hd: "map (\<lambda>e. get_text e True)
              (find_all (card_elem ''7. Heat'') (ByClass ''h3'' ''ipc-title__text''))
            = [''7. Heat'']"
    by (simp add: card_elem_def leaf_def)
  from r ti hd m1 m2 cards show ?thesis
    by (simp add: find_first_def prefixed_page_def)
qed

text \<open>
  Claim C8 as stated fails: on \<open>prefixed_page\<close> the first container's title text is
  \<open>"7. Heat"\<close>, an explicit rank prefix, and the item extracted from it has the title
  \<open>Heat\<close> and the positional rank 1, not 7.
\<close>

theorem card_list_prefix_does_not_override:
  "get_text (leaf ''7. Heat'') True = ''7. Heat''
   \<and> re_match demo_lib RankPrefix ''7. Heat'' = Some ''Heat''
   \<and> extract_from_classic_page demo_lib prefixed_page ! 0 = mk_movie (Some (PyInt 1)) ''Heat''
   \<and> rank (extract_from_classic_page demo_lib prefixed_page ! 0) \<noteq> Some (PyInt 7)"
proof -
  have a: "get_text (leaf ''7. Heat'') True = ''7. Heat''" by (simp add: leaf_def)
  have b: "re_match demo_lib RankPrefix ''7. Heat'' = Some ''Heat''" by (simp add: demo_lib_def)
  have c: "extract_from_classic_page demo_lib prefixed_page ! 0
             = mk_movie (Some (PyInt 1)) ''Heat''"
    by (simp add: prefixed_page_result)
  have d: "rank (mk_movie (Some (PyInt 1)) ''Heat'') \<noteq> Some (PyInt 7)"
    by (simp add: mk_movie_def)
  from a b c d show ?thesis by simp
qed

section \<open>Structured data (JSON-LD)\<close>














end
